theory Spec2Isabelle
  imports Main "HOL-Library.Char_ord" "HOL-Library.List_Lexorder" "HOL-Library.Product_Lexorder"
    "HOL-Library.Multiset"
begin

section \<open>The audio player and its recording scheduler (zr_core/player.py)\<close>

text \<open>
  Naive \<open>datetime\<close> values are modelled by their position on the time line (a count of
  microseconds); the player only ever compares them.
\<close>

type_synonym datetime = int

datatype PlayerState = STOPPED | PLAYING | BUFFERING | PAUSED | ERROR

datatype RecordingState = IDLE | RECORDING | SCHEDULED

text \<open>
  \<open>class ScheduledRecording\<close>: the constructor stores its five arguments and sets
  \<open>active = True\<close>.
\<close>

record ScheduledRecording =
  station_url :: string
  station_name :: string
  start_time :: datetime
  end_time :: datetime
  output_path :: string
  active :: bool

definition ScheduledRecording_init ::
  "string \<Rightarrow> string \<Rightarrow> datetime \<Rightarrow> datetime \<Rightarrow> string \<Rightarrow> ScheduledRecording" where
  "ScheduledRecording_init url name st en path =
     \<lparr>station_url = url, station_name = name, start_time = st, end_time = en,
      output_path = path, active = True\<rparr>"

text \<open>
  The media backend (\<open>vlc_wrapper.VLC\<close> over \<open>VLCPlayer\<close>), reduced to the fields the
  player reads and writes: \<open>_volume\<close>, \<open>_muted\<close>, \<open>_recording\<close> and \<open>_record_file\<close>.
  The constructor of \<open>VLC\<close> either attaches a backend or raises, so a player that exists
  has one.
\<close>

record VLCPlayer =
  vlc_volume :: int
  vlc_muted :: bool
  vlc_recording :: bool
  vlc_record_file :: string

definition vlc_set_volume :: "int \<Rightarrow> VLCPlayer \<Rightarrow> VLCPlayer" where
  "vlc_set_volume v b = b\<lparr>vlc_volume := max 0 (min 100 v)\<rparr>"


text \<open>
  \<open>class AudioPlayer\<close>. Every \<open>ScheduledRecording\<close> instance lives in the object store
  \<open>objects\<close> and is addressed by its index there; \<open>scheduled\<close> is the list
  \<open>_scheduled_recordings\<close> of references. The store makes the sharing visible: the list
  comprehension of the \<open>scheduled_recordings\<close> property builds a new list of the same
  instances, and a write through it is seen through \<open>_scheduled_recordings\<close>.
  \<open>threads\<close> collects the \<open>(url, output_path)\<close> arguments of the recording threads
  that \<open>start_recording\<close> has started.
\<close>

record AudioPlayer =
  player :: "VLCPlayer option"
  volume :: int
  muted :: bool
  current_url :: string
  recording_state :: RecordingState
  recording_start_time :: "datetime option"
  objects :: "ScheduledRecording list"
  scheduled :: "nat list"
  scheduler_running :: bool
  threads :: "(string \<times> string) list"

text \<open>\<open>AudioPlayer.__init__\<close>, which ends by starting the scheduler.\<close>

definition AudioPlayer_init :: AudioPlayer where
  "AudioPlayer_init =
     \<lparr>player = None, volume = 50, muted = False, current_url = [],
      recording_state = IDLE, recording_start_time = None,
      objects = [], scheduled = [], scheduler_running = True, threads = []\<rparr>"

subsection \<open>Volume\<close>

text \<open>The \<open>volume\<close> setter: clamp, store, and pass the stored value to the backend.\<close>

definition volume_setter :: "int \<Rightarrow> AudioPlayer \<Rightarrow> AudioPlayer" where
  "volume_setter v p =
     (let p1 = p\<lparr>volume := max 0 (min 100 v)\<rparr>
      in case player p1 of
           None \<Rightarrow> p1
         | Some b \<Rightarrow> p1\<lparr>player := Some (vlc_set_volume (volume p1) b)\<rparr>)"

definition set_volume_percent :: "int \<Rightarrow> AudioPlayer \<Rightarrow> AudioPlayer" where
  "set_volume_percent percent p = volume_setter percent p"

definition volume_up :: "int \<Rightarrow> AudioPlayer \<Rightarrow> int \<times> AudioPlayer" where
  "volume_up step p =
     (let p1 = volume_setter (min 100 (volume p + step)) p in (volume p1, p1))"

definition volume_down :: "int \<Rightarrow> AudioPlayer \<Rightarrow> int \<times> AudioPlayer" where
  "volume_down step p =
     (let p1 = volume_setter (max 0 (volume p - step)) p in (volume p1, p1))"

text \<open>A caller's sequence of volume operations, run from left to right.\<close>

datatype volume_call =
  Assign int | SetVolumePercent int | VolumeUp int | VolumeDown int

fun volume_call_run :: "AudioPlayer \<Rightarrow> volume_call \<Rightarrow> AudioPlayer" where
  "volume_call_run p (Assign v) = volume_setter v p"
| "volume_call_run p (SetVolumePercent v) = set_volume_percent v p"
| "volume_call_run p (VolumeUp step) = snd (volume_up step p)"
| "volume_call_run p (VolumeDown step) = snd (volume_down step p)"

definition volume_calls_run :: "AudioPlayer \<Rightarrow> volume_call list \<Rightarrow> AudioPlayer" where
  "volume_calls_run p cs = foldl volume_call_run p cs"

definition volume_in_range :: "AudioPlayer \<Rightarrow> bool" where
  "volume_in_range p = (0 \<le> volume p \<and> volume p \<le> 100)"


subsection \<open>Scheduled recordings\<close>

text \<open>
  The \<open>scheduled_recordings\<close> property: a new list holding the references of
  \<open>_scheduled_recordings\<close> whose instance is active.
\<close>

definition scheduled_recordings :: "AudioPlayer \<Rightarrow> nat list" where
  "scheduled_recordings p = filter (\<lambda>r. active (objects p ! r)) (scheduled p)"

text \<open>
  \<open>schedule_recording\<close>; \<open>now\<close> is the value that \<open>datetime.now()\<close> returns inside
  the call. The new instance is allocated at the end of the store.
\<close>

definition schedule_recording ::
  "datetime \<Rightarrow> string \<Rightarrow> string \<Rightarrow> datetime \<Rightarrow> datetime \<Rightarrow> string \<Rightarrow> AudioPlayer
     \<Rightarrow> bool \<times> AudioPlayer" where
  "schedule_recording now url name st en path p =
     (if st \<ge> en then (False, p)
      else if st \<le> now then (False, p)
      else
        (True,
         p\<lparr>objects := objects p @ [ScheduledRecording_init url name st en path],
           scheduled := scheduled p @ [length (objects p)]\<rparr>))"

text \<open>
  \<open>cancel_scheduled_recording\<close>: the write goes to the instance found at \<open>index\<close> in
  the list returned by the property.
\<close>

definition cancel_scheduled_recording :: "int \<Rightarrow> AudioPlayer \<Rightarrow> bool \<times> AudioPlayer" where
  "cancel_scheduled_recording index p =
     (let active_recordings = scheduled_recordings p
      in if 0 \<le> index \<and> index < int (length active_recordings)
         then
           (let r = active_recordings ! nat index
            in (True, p\<lparr>objects := (objects p)[r := (objects p ! r)\<lparr>active := False\<rparr>]\<rparr>))
         else (False, p))"

text \<open>
  The references a player holds are to instances that exist, and
  \<open>schedule_recording\<close> creates a new instance for every entry, so no instance is listed
  twice.
\<close>

definition refs_ok :: "AudioPlayer \<Rightarrow> bool" where
  "refs_ok p = (distinct (scheduled p) \<and> list_all (\<lambda>r. r < length (objects p)) (scheduled p))"

text \<open>The instances behind a list of references.\<close>

definition deref :: "AudioPlayer \<Rightarrow> nat list \<Rightarrow> ScheduledRecording list" where
  "deref p rs = map (\<lambda>r. objects p ! r) rs"

text \<open>A player with two recordings scheduled, for the worked examples below.\<close>

definition two_scheduled :: AudioPlayer where
  "two_scheduled =
     snd (schedule_recording 0 ''http://s/b'' ''B'' 40 50 ''b.mp3''
       (snd (schedule_recording 0 ''http://s/a'' ''A'' 20 30 ''a.mp3'' AudioPlayer_init)))"

subsection \<open>Recording\<close>

text \<open>
  What the media library does is outside the program; it enters as \<open>vlc_env\<close>: whether
  the library was importable (\<open>VLC_AVAILABLE\<close>), whether creating an instance succeeds,
  and whether the library starts a recording it is asked for.
\<close>

record vlc_env =
  VLC_AVAILABLE :: bool
  vlc_create_ok :: bool
  vlc_start_ok :: bool


text \<open>
  \<open>_init_player\<close>. A new backend starts with volume 100, unmuted and not recording, and
  is then given the player's volume and mute state.
\<close>

definition init_player :: "vlc_env \<Rightarrow> AudioPlayer \<Rightarrow> bool \<times> AudioPlayer" where
  "init_player env p =
     (if \<not> VLC_AVAILABLE env then (False, p)
      else if player p \<noteq> None then (True, p)
      else if vlc_create_ok env then
        (True,
         p\<lparr>player :=
             Some ((vlc_set_volume (volume p)
                      \<lparr>vlc_volume = 100, vlc_muted = False, vlc_recording = False,
                       vlc_record_file = []\<rparr>)
                   \<lparr>vlc_muted := muted p\<rparr>)\<rparr>)
      else (False, p\<lparr>player := None\<rparr>))"






subsection \<open>The scheduler\<close>










subsection \<open>The scheduler thread\<close>












section \<open>The API client (zr_core/api_client.py)\<close>






definition FALLBACK_SERVERS :: "string list" where
  "FALLBACK_SERVERS =
     [''de1.api.radio-browser.info'', ''nl1.api.radio-browser.info'',
      ''at1.api.radio-browser.info'']"

text \<open>\<open>_discover_servers\<close>, given the hosts found; never empty.\<close>

definition discover_servers :: "string list \<Rightarrow> string list" where
  "discover_servers found =
     (let hosts = remdups found;
          hosts = (if hosts = [] then FALLBACK_SERVERS else hosts)
      in map (\<lambda>h. ''https://'' @ h) hosts)"

text \<open>\<open>list.index\<close>: the first position of an element that is in the list.\<close>

fun list_index :: "'a list \<Rightarrow> 'a \<Rightarrow> nat" where
  "list_index [] x = 0"
| "list_index (y # ys) x = (if y = x then 0 else Suc (list_index ys x))"















section \<open>The event bus (zr_core/events.py)\<close>

datatype EventType =
  PLAYBACK_STARTED | PLAYBACK_STOPPED | PLAYBACK_PAUSED | PLAYBACK_RESUMED | PLAYBACK_ERROR
| BUFFERING_STARTED | BUFFERING_ENDED
| VOLUME_CHANGED | MUTE_TOGGLED
| METADATA_UPDATED
| FAVORITE_ADDED | FAVORITE_REMOVED | FAVORITE_UPDATED | FAVORITES_REORDERED
| CATEGORY_ADDED | CATEGORY_REMOVED | CATEGORY_UPDATED
| SEARCH_STARTED | SEARCH_COMPLETED | SEARCH_ERROR
| WINDOW_OPENED | WINDOW_CLOSED | TAB_CHANGED
| PLUGIN_LOADED | PLUGIN_UNLOADED | PLUGIN_ERROR
| CONFIG_CHANGED
| INTERNET_CONNECTED | INTERNET_DISCONNECTED




















section \<open>The plugin manager (zr_core/plugin_manager.py)\<close>

datatype PluginState = UNLOADED | LOADED | ACTIVE | ERROR_plugin | DISABLED

record PluginMetadata =
  md_id :: string
  md_name :: string
  md_version :: string
  md_author :: string
  md_description :: string

text \<open>
  A plugin class, as far as the manager meets it: the class attributes that
  \<open>PluginBase.__init__\<close> reads, whether its constructor raises, and what \<open>on_load\<close>
  does on a new instance.
\<close>

datatype outcome = Returns bool | Raises string

record plugin_class =
  class_name :: string
  PLUGIN_ID :: string
  PLUGIN_NAME :: string
  PLUGIN_VERSION :: string
  PLUGIN_AUTHOR :: string
  PLUGIN_DESCRIPTION :: string
  init_raises :: "string option"
  on_load :: outcome

record plugin =
  metadata :: PluginMetadata
  plugin_state :: PluginState


text \<open>
  The manager's two dictionaries. What \<open>load_plugin\<close> does besides changing them is
  returned as a list of steps: the classes it instantiates and the events it emits on the
  bus, with the data it passes.
\<close>

record PluginManager =
  plugins :: "string \<rightharpoonup> plugin"
  plugin_classes :: "string \<rightharpoonup> plugin_class"

datatype event_data = Metadata PluginMetadata | Failure string string

datatype step = Instantiated string | Emitted EventType event_data

definition PluginManager_init :: PluginManager where
  "PluginManager_init = \<lparr>plugins = Map.empty, plugin_classes = Map.empty\<rparr>"


text \<open>Every registered plugin is in state \<open>LOADED\<close>.\<close>

definition all_loaded :: "PluginManager \<Rightarrow> bool" where
  "all_loaded m = (\<forall>i p. plugins m i = Some p \<longrightarrow> plugin_state p = LOADED)"






section \<open>Favorites in the database (zr_core/database.py)\<close>

text \<open>
  The \<open>Favorite\<close> dataclass of \<open>models.py\<close>, and a row of the table \<open>favorites\<close>. The
  program stores an integer in the column \<open>"order"\<close> in every write, so the column is an
  \<open>int\<close>; \<open>name\<close> and \<open>url\<close> are \<open>NOT NULL\<close>.
\<close>

record Favorite =
  fav_id :: "int option"
  fav_name :: string
  fav_url :: string
  fav_station_uuid :: "string option"
  fav_category_id :: "int option"
  fav_order :: int
  fav_play_count :: int
  fav_last_played :: "datetime option"
  fav_notes :: string
  fav_created_at :: "datetime option"

record favorites_row =
  row_id :: int
  row_name :: string
  row_url :: string
  row_station_uuid :: "string option"
  row_category_id :: "int option"
  row_order :: int
  row_play_count :: int
  row_last_played :: "datetime option"
  row_notes :: string
  row_created_at :: "datetime option"

text \<open>
  The table, its rows in the order of their insertion, with the counter that
  \<open>AUTOINCREMENT\<close> keeps for it.
\<close>

record Database =
  favorites :: "favorites_row list"
  favorites_seq :: int

text \<open>\<open>SELECT MAX("order") FROM favorites\<close>: \<open>NULL\<close> on an empty table.\<close>

definition max_order :: "favorites_row list \<Rightarrow> int option" where
  "max_order rows =
     (case map row_order rows of [] \<Rightarrow> None | x # xs \<Rightarrow> Some (fold max xs x))"

text \<open>Python's \<open>max_order or 0\<close>: 0 for \<open>None\<close> and for 0.\<close>

definition or_0 :: "int option \<Rightarrow> int" where
  "or_0 v = (case v of None \<Rightarrow> 0 | Some m \<Rightarrow> if m = 0 then 0 else m)"

text \<open>The rowid that \<open>AUTOINCREMENT\<close> gives to the next row.\<close>

definition next_rowid :: "Database \<Rightarrow> int" where
  "next_rowid db = fold max (map row_id (favorites db)) (favorites_seq db) + 1"

text \<open>
  \<open>add_favorite\<close>; \<open>now\<close> is \<open>CURRENT_TIMESTAMP\<close>. First the row that the
  \<open>INSERT\<close> stores: the columns it does not name take their defaults.
\<close>

definition new_row :: "datetime \<Rightarrow> Favorite \<Rightarrow> Database \<Rightarrow> favorites_row" where
  "new_row now favorite db =
     (let next_order = or_0 (max_order (favorites db)) + 1
      in \<lparr>row_id = next_rowid db, row_name = fav_name favorite, row_url = fav_url favorite,
          row_station_uuid = fav_station_uuid favorite,
          row_category_id = fav_category_id favorite, row_order = next_order,
          row_play_count = 0, row_last_played = None, row_notes = fav_notes favorite,
          row_created_at = Some now\<rparr>)"

text \<open>The result is \<open>lastrowid\<close>.\<close>

definition add_favorite :: "datetime \<Rightarrow> Favorite \<Rightarrow> Database \<Rightarrow> int \<times> Database" where
  "add_favorite now favorite db =
     (let row = new_row now favorite db
      in (row_id row,
          db\<lparr>favorites := favorites db @ [row], favorites_seq := row_id row\<rparr>))"





text \<open>Sample inputs: a table with three favorites, two of them in category 7.\<close>

definition sample_favorite :: "string \<Rightarrow> int option \<Rightarrow> Favorite" where
  "sample_favorite name category =
     \<lparr>fav_id = None, fav_name = name, fav_url = ''http://s/'' @ name, fav_station_uuid = None,
      fav_category_id = category, fav_order = 0, fav_play_count = 0, fav_last_played = None,
      fav_notes = [], fav_created_at = None\<rparr>"


definition sample_db :: Database where
  "sample_db =
     snd (add_favorite 3 (sample_favorite ''jazz'' (Some 7))
       (snd (add_favorite 2 (sample_favorite ''news'' None)
         (snd (add_favorite 1 (sample_favorite ''rock'' (Some 7))
           \<lparr>favorites = [], favorites_seq = 0\<rparr>)))))"

section \<open>Properties\<close>

subsection \<open>Volume\<close>

lemma volume_volume_setter: "volume (volume_setter v p) = max 0 (min 100 v)"
  by (simp add: volume_setter_def Let_def split: option.splits)

lemma volume_in_range_setter: "volume_in_range (volume_setter v p)"
  by (simp add: volume_in_range_def volume_volume_setter)

lemma volume_in_range_call: "volume_in_range p \<Longrightarrow> volume_in_range (volume_call_run p c)"
  by (cases c)
     (simp_all add: volume_in_range_setter set_volume_percent_def volume_up_def
        volume_down_def Let_def)

lemma volume_in_range_calls:
  "volume_in_range p \<Longrightarrow> volume_in_range (foldl volume_call_run p cs)"
  by (induction cs arbitrary: p) (simp_all add: volume_in_range_call)

text \<open>
  Claim C9. The volume setter clamps every assigned value into the range 0 to 100; a new
  player starts in that range, and every sequence of assignments, \<open>set_volume_percent\<close>,
  \<open>volume_up\<close> and \<open>volume_down\<close> calls, with any step, leaves the stored volume in
  it; \<open>volume_up\<close> and \<open>volume_down\<close> return the volume they have stored.
\<close>

theorem volume_always_in_range:
  "volume (volume_setter v p) = (if v < 0 then 0 else if 100 < v then 100 else v)
   \<and> volume_in_range AudioPlayer_init
   \<and> volume_in_range (volume_calls_run AudioPlayer_init cs)
   \<and> (volume_in_range p \<longrightarrow> volume_in_range (volume_calls_run p cs))
   \<and> fst (volume_up step p) = volume (snd (volume_up step p))
   \<and> fst (volume_down step p) = volume (snd (volume_down step p))
   \<and> volume_in_range (snd (volume_up step p))
   \<and> volume_in_range (snd (volume_down step p))"
proof -
  have init: "volume_in_range AudioPlayer_init"
    by (simp add: volume_in_range_def AudioPlayer_init_def)
  have clamp: "volume (volume_setter v p) = (if v < 0 then 0 else if 100 < v then 100 else v)"
    by (simp add: volume_volume_setter)
  have ret: "fst (volume_up step p) = volume (snd (volume_up step p))"
    "fst (volume_down step p) = volume (snd (volume_down step p))"
    by (simp_all add: volume_up_def volume_down_def Let_def)
  have rng: "volume_in_range (snd (volume_up step p))"
    "volume_in_range (snd (volume_down step p))"
    by (simp_all add: volume_up_def volume_down_def Let_def volume_in_range_setter)
  from init clamp ret rng show ?thesis
    by (simp add: volume_calls_run_def volume_in_range_calls)
qed

theorem volume_always_in_range_witness:
  "volume (volume_setter 150 AudioPlayer_init) = 100
   \<and> volume (volume_setter (- 7) AudioPlayer_init) = 0
   \<and> volume_in_range AudioPlayer_init
   \<and> volume_in_range
       (volume_calls_run AudioPlayer_init [VolumeUp 70, Assign 300, VolumeDown 500, VolumeUp 5])
   \<and> fst (volume_up 70 AudioPlayer_init) = 100
   \<and> fst (volume_down 70 AudioPlayer_init) = 0"
proof -
  note t = volume_always_in_range [of 150 AudioPlayer_init
      "[VolumeUp 70, Assign 300, VolumeDown 500, VolumeUp 5]" 70]
  note u = volume_always_in_range [of "- 7" AudioPlayer_init "[]" 70]
  have a: "volume (snd (volume_up 70 AudioPlayer_init)) = 100"
    by (simp add: volume_up_def volume_volume_setter AudioPlayer_init_def)
  have b: "volume (snd (volume_down 70 AudioPlayer_init)) = 0"
    by (simp add: volume_down_def volume_volume_setter AudioPlayer_init_def)
  from t u a b show ?thesis by simp
qed

subsection \<open>Scheduling and cancelling\<close>

lemma refs_ok_init: "refs_ok AudioPlayer_init"
  by (simp add: refs_ok_def AudioPlayer_init_def)

lemma refs_ok_schedule_recording:
  "refs_ok p \<Longrightarrow> refs_ok (snd (schedule_recording now url name st en path p))"
  by (auto simp: refs_ok_def schedule_recording_def list_all_iff)

lemma refs_ok_cancel_scheduled_recording:
  "refs_ok p \<Longrightarrow> refs_ok (snd (cancel_scheduled_recording index p))"
  by (simp add: refs_ok_def cancel_scheduled_recording_def Let_def)

lemma deref_old_after_append:
  "list_all (\<lambda>r. r < length os) rs \<Longrightarrow> map (\<lambda>r. (os @ [x]) ! r) rs = map (\<lambda>r. os ! r) rs"
  by (induction rs) (simp_all add: nth_append)

text \<open>
  Claim C3. \<open>schedule_recording\<close> returns \<open>True\<close> exactly when \<open>start_time < end_time\<close>
  and \<open>start_time\<close> is after the current time. Then the scheduled list is the old one
  followed by one new active recording with the given url, name, window and output path,
  and the recordings already listed are as they were. Otherwise it returns \<open>False\<close>
  and the player is unchanged.
\<close>

theorem schedule_recording_iff:
  assumes "refs_ok p"
  shows "fst (schedule_recording now url name st en path p) = (st < en \<and> now < st)
    \<and> (st < en \<and> now < st \<longrightarrow>
          deref (snd (schedule_recording now url name st en path p))
                (scheduled (snd (schedule_recording now url name st en path p)))
          = deref p (scheduled p)
            @ [\<lparr>station_url = url, station_name = name, start_time = st, end_time = en,
                output_path = path, active = True\<rparr>]
          \<and> length (scheduled (snd (schedule_recording now url name st en path p)))
            = Suc (length (scheduled p))
          \<and> refs_ok (snd (schedule_recording now url name st en path p)))
    \<and> (\<not> (st < en \<and> now < st) \<longrightarrow> snd (schedule_recording now url name st en path p) = p)"
proof -
  from assms have old: "list_all (\<lambda>r. r < length (objects p)) (scheduled p)"
    by (simp add: refs_ok_def)
  have ok: "refs_ok (snd (schedule_recording now url name st en path p))"
    using assms by (rule refs_ok_schedule_recording)
  show ?thesis
    using ok deref_old_after_append [OF old]
    by (auto simp: schedule_recording_def deref_def ScheduledRecording_init_def)
qed

theorem schedule_recording_iff_witness:
  "refs_ok AudioPlayer_init
   \<and> fst (schedule_recording 10 ''http://s/a'' ''A'' 20 30 ''a.mp3'' AudioPlayer_init)
   \<and> deref (snd (schedule_recording 10 ''http://s/a'' ''A'' 20 30 ''a.mp3'' AudioPlayer_init))
        (scheduled (snd (schedule_recording 10 ''http://s/a'' ''A'' 20 30 ''a.mp3'' AudioPlayer_init)))
      = [\<lparr>station_url = ''http://s/a'', station_name = ''A'', start_time = 20, end_time = 30,
          output_path = ''a.mp3'', active = True\<rparr>]
   \<and> \<not> fst (schedule_recording 20 ''http://s/a'' ''A'' 20 30 ''a.mp3'' AudioPlayer_init)
   \<and> snd (schedule_recording 20 ''http://s/a'' ''A'' 20 30 ''a.mp3'' AudioPlayer_init)
      = AudioPlayer_init
   \<and> \<not> fst (schedule_recording 10 ''http://s/a'' ''A'' 30 30 ''a.mp3'' AudioPlayer_init)"
proof -
  note a = schedule_recording_iff [OF refs_ok_init, of 10 "''http://s/a''" "''A''" 20 30 "''a.mp3''"]
  note b = schedule_recording_iff [OF refs_ok_init, of 20 "''http://s/a''" "''A''" 20 30 "''a.mp3''"]
  note c = schedule_recording_iff [OF refs_ok_init, of 10 "''http://s/a''" "''A''" 30 30 "''a.mp3''"]
  have e: "deref AudioPlayer_init (scheduled AudioPlayer_init) = []"
    by (simp add: deref_def AudioPlayer_init_def)
  from a b c e show ?thesis by (simp add: refs_ok_init)
qed

subsection \<open>Cancelling\<close>

lemma filter_neq_nth:
  "distinct ys \<Longrightarrow> i < length ys \<Longrightarrow> filter (\<lambda>x. x \<noteq> ys ! i) ys = take i ys @ drop (Suc i) ys"
proof (induction ys arbitrary: i)
  case Nil
  then show ?case by simp
next
  case (Cons y ys)
  show ?case
  proof (cases i)
    case 0
    with Cons.prems have "filter (\<lambda>x. x \<noteq> y) ys = ys"
      by (auto simp: filter_id_conv)
    with 0 show ?thesis by simp
  next
    case (Suc k)
    with Cons.prems have k: "k < length ys" "distinct ys" "ys ! k \<noteq> y"
      by auto
    with Cons.IH [of k] Suc show ?thesis by auto
  qed
qed

lemma scheduled_recordings_after_cancel:
  assumes "refs_ok p" "r \<in> set (scheduled p)"
  shows "scheduled_recordings (p\<lparr>objects := (objects p)[r := (objects p ! r)\<lparr>active := False\<rparr>]\<rparr>)
         = filter (\<lambda>x. x \<noteq> r) (scheduled_recordings p)"
proof -
  from assms have r: "r < length (objects p)"
    by (auto simp: refs_ok_def list_all_iff)
  have "\<And>x. active ((objects p)[r := (objects p ! r)\<lparr>active := False\<rparr>] ! x)
            = (x \<noteq> r \<and> active (objects p ! x))"
    using r by (simp add: nth_list_update)
  then show ?thesis
    by (simp add: scheduled_recordings_def conj_commute)
qed

text \<open>
  Claim C10. \<open>cancel_scheduled_recording index\<close> returns \<open>True\<close> exactly when
  \<open>0 \<le> index\<close> and \<open>index\<close> is below the number of active scheduled recordings.
  Then the recording at that position of the \<open>scheduled_recordings\<close> property, and no
  other, is made inactive, and the list the property returns loses that one entry. For any
  other index it returns \<open>False\<close> and the player, with every active flag, is unchanged.
\<close>

theorem cancel_scheduled_recording_iff:
  assumes "refs_ok p"
  shows "fst (cancel_scheduled_recording index p)
           = (0 \<le> index \<and> index < int (length (scheduled_recordings p)))
    \<and> (0 \<le> index \<and> index < int (length (scheduled_recordings p)) \<longrightarrow>
         (let r = scheduled_recordings p ! nat index;
              p' = snd (cancel_scheduled_recording index p)
          in active (objects p ! r)
             \<and> objects p' ! r = (objects p ! r)\<lparr>active := False\<rparr>
             \<and> (\<forall>j. j \<noteq> r \<longrightarrow> objects p' ! j = objects p ! j)
             \<and> length (objects p') = length (objects p)
             \<and> scheduled p' = scheduled p
             \<and> scheduled_recordings p'
                 = take (nat index) (scheduled_recordings p)
                   @ drop (Suc (nat index)) (scheduled_recordings p)
             \<and> Suc (length (scheduled_recordings p')) = length (scheduled_recordings p)))
    \<and> (\<not> (0 \<le> index \<and> index < int (length (scheduled_recordings p))) \<longrightarrow>
         snd (cancel_scheduled_recording index p) = p)"
proof (cases "0 \<le> index \<and> index < int (length (scheduled_recordings p))")
  case False
  then have "cancel_scheduled_recording index p = (False, p)"
    by (auto simp: cancel_scheduled_recording_def Let_def)
  with False show ?thesis by auto
next
  case True
  define i where "i = nat index"
  define r where "r = scheduled_recordings p ! i"
  from True have i: "i < length (scheduled_recordings p)"
    unfolding i_def by linarith
  then have mem: "r \<in> set (scheduled_recordings p)"
    by (simp add: r_def)
  then have rs: "r \<in> set (scheduled p)" and act: "active (objects p ! r)"
    by (simp_all add: scheduled_recordings_def)
  from rs assms have rl: "r < length (objects p)"
    by (auto simp: refs_ok_def list_all_iff)
  have res: "cancel_scheduled_recording index p
       = (True, p\<lparr>objects := (objects p)[r := (objects p ! r)\<lparr>active := False\<rparr>]\<rparr>)"
    using True by (simp add: cancel_scheduled_recording_def Let_def r_def i_def)
  from assms have d: "distinct (scheduled_recordings p)"
    by (simp add: refs_ok_def scheduled_recordings_def)
  have left: "scheduled_recordings (p\<lparr>objects := (objects p)[r := (objects p ! r)\<lparr>active := False\<rparr>]\<rparr>)
      = take i (scheduled_recordings p) @ drop (Suc i) (scheduled_recordings p)"
    using scheduled_recordings_after_cancel [OF assms rs] filter_neq_nth [OF d i]
    by (simp add: r_def)
  have len: "Suc (length (take i (scheduled_recordings p) @ drop (Suc i) (scheduled_recordings p)))
      = length (scheduled_recordings p)"
    using i by simp
  show ?thesis
    using True act rl left len
    by (simp add: res Let_def r_def [symmetric] i_def [symmetric])
qed

lemma two_scheduled_eq:
  "two_scheduled =
     AudioPlayer_init
       \<lparr>objects := [ScheduledRecording_init ''http://s/a'' ''A'' 20 30 ''a.mp3'',
                    ScheduledRecording_init ''http://s/b'' ''B'' 40 50 ''b.mp3''],
        scheduled := [0, 1]\<rparr>"
  by (simp add: two_scheduled_def schedule_recording_def AudioPlayer_init_def)

lemma refs_ok_two_scheduled: "refs_ok two_scheduled"
  unfolding two_scheduled_def
  by (intro refs_ok_schedule_recording refs_ok_init)

theorem cancel_scheduled_recording_iff_witness:
  "refs_ok two_scheduled
   \<and> scheduled_recordings two_scheduled = [0, 1]
   \<and> fst (cancel_scheduled_recording 0 two_scheduled)
   \<and> scheduled_recordings (snd (cancel_scheduled_recording 0 two_scheduled)) = [1]
   \<and> \<not> active (objects (snd (cancel_scheduled_recording 0 two_scheduled)) ! 0)
   \<and> active (objects (snd (cancel_scheduled_recording 0 two_scheduled)) ! 1)
   \<and> \<not> fst (cancel_scheduled_recording 2 two_scheduled)
   \<and> snd (cancel_scheduled_recording 2 two_scheduled) = two_scheduled
   \<and> \<not> fst (cancel_scheduled_recording (- 1) two_scheduled)"
proof -
  have act: "scheduled_recordings two_scheduled = [0, 1]"
    by (simp add: two_scheduled_eq scheduled_recordings_def ScheduledRecording_init_def)
  have o1: "active (objects two_scheduled ! 1)"
    by (simp add: two_scheduled_eq ScheduledRecording_init_def)
  note a = cancel_scheduled_recording_iff [OF refs_ok_two_scheduled, of 0]
  note b = cancel_scheduled_recording_iff [OF refs_ok_two_scheduled, of 2]
  note c = cancel_scheduled_recording_iff [OF refs_ok_two_scheduled, of "- 1"]
  from a b c act o1 show ?thesis
    by (simp add: refs_ok_two_scheduled Let_def)
qed

subsection \<open>The scheduler's poll\<close>

lemma init_player_keeps:
  "objects (snd (init_player env p)) = objects p"
  "scheduled (snd (init_player env p)) = scheduled p"
  by (simp_all add: init_player_def)















subsection \<open>The scheduler thread\<close>
















subsection \<open>Failover of the API client\<close>




lemma list_index_first: "i < list_index xs x \<Longrightarrow> xs ! i \<noteq> x"
proof (induction xs arbitrary: i)
  case Nil
  then show ?case by simp
next
  case (Cons y ys)
  then show ?case by (cases i) (auto split: if_splits)
qed

lemma discover_servers_not_empty: "discover_servers found \<noteq> []"
  by (simp add: discover_servers_def Let_def FALLBACK_SERVERS_def)





subsection \<open>The event bus\<close>



















subsection \<open>Loading a plugin\<close>

lemma all_loaded_init: "all_loaded PluginManager_init"
  by (simp add: all_loaded_def PluginManager_init_def)







subsection \<open>The order of the favorites\<close>
















lemma sample_db_rows:
  "map (\<lambda>r. (row_id r, row_order r, row_name r, row_category_id r)) (favorites sample_db)
   = [(1, 1, ''rock'', Some 7), (2, 2, ''news'', None), (3, 3, ''jazz'', Some 7)]"
  by (simp add: sample_db_def add_favorite_def new_row_def next_rowid_def max_order_def or_0_def
      sample_favorite_def Let_def)






end
